theory Spec2Isabelle
  imports Complex_Main "HOL-Library.AList"
begin

section \<open>Values, exceptions and dictionaries\<close>

text \<open>
  An update cycle is the key of \<open>update_channels\<close>: a period in microseconds, or Python's
  \<open>None\<close> when a channel was requested without one.
\<close>

type_synonym cycle = "int option"

text \<open>
  The exceptions the three source files can raise. The first six are the \<open>raise\<close>
  statements of the source; the others are raised by the interpreter itself.
\<close>

datatype error =
    PinAlreadyClaimed int
      \<comment> \<open>utility.py 19: \<open>AttributeError('pin {} already claimed')\<close>\<close>
  | ChannelInconsistency cycle
      \<comment> \<open>io_controller.py 223: \<open>AttributeError('inconsistency between ...')\<close>\<close>
  | NoDmaChannel
      \<comment> \<open>io_controller.py 241: \<open>RuntimeError('no available dma channel')\<close>\<close>
  | InvalidAngle
      \<comment> \<open>io_controller.py 99: \<open>ValueError('angle must be between 0 and range')\<close>\<close>
  | InvalidSpeed
      \<comment> \<open>io_controller.py 136: \<open>ValueError('speed must be between -1 and 1')\<close>\<close>
  | InvalidBrightness
      \<comment> \<open>io_controller.py 159: \<open>ValueError('brightness must be between 0 and 100')\<close>\<close>
  | NoSuchAttribute string
      \<comment> \<open>\<open>AttributeError\<close>: the object has no attribute of that name\<close>
  | NoSetter string
      \<comment> \<open>\<open>AttributeError\<close>: assignment to a property that has a getter only\<close>
  | WrongArity nat nat
      \<comment> \<open>\<open>TypeError\<close>: a function of \<open>m\<close> positional parameters called with \<open>n\<close>\<close>
  | NotIterable
      \<comment> \<open>\<open>TypeError\<close>: \<open>max\<close> or \<open>min\<close> of a number\<close>
  | EmptySequence
      \<comment> \<open>\<open>ValueError\<close>: \<open>max\<close> or \<open>min\<close> of an empty sequence\<close>
  | DivisionByZero
      \<comment> \<open>\<open>ZeroDivisionError\<close>\<close>
  | RecursionLimit
      \<comment> \<open>\<open>RecursionError\<close>: the interpreter's call depth is used up\<close>

text \<open>
  \<open>RPIO.PWM.Servo(channel, update_cycle)\<close>, the driver's object for one DMA channel. The
  constructor of the driver library only stores its two arguments.
\<close>

datatype pwm_servo = PWM_Servo (dma_channel: int) (subcycle: cycle)

text \<open>
  Python passes any object in any parameter. Where the source passes an argument of another
  kind than the parameter is used as, the argument is a \<open>pyobj\<close>. There is one
  \<open>Config\<close> object and one \<open>OutputController\<close>; \<open>PyConfig\<close> and
  \<open>PyController\<close> are references to them, \<open>PySelf\<close> to the object under construction.
\<close>

datatype pyobj =
    PyInt int
  | PyStr string
  | PyBool bool
  | PyNums "rat list"
  | PyChannel pwm_servo
  | PyConfig
  | PyController
  | PySelf

text \<open>
  A \<open>dict\<close> keeps its keys in insertion order (\<open>list(d.keys())[0]\<close> is the oldest key),
  so it is an association list: \<open>AList.update\<close> replaces the value of a key in place and
  appends a new key at the end, \<open>map_of\<close> reads, \<open>has_key\<close> is Python's \<open>in\<close>.
\<close>

definition has_key :: "('k \<times> 'v) list \<Rightarrow> 'k \<Rightarrow> bool" where
  "has_key d k = (k \<in> fst ` set d)"

section \<open>config.py and the driver\<close>

text \<open>
  \<open>Config\<close>: the values \<open>get_vars\<close> reads. \<open>echo\<close> is the string of the configuration
  file; the source tests its truth value, which is that of a non-empty string.
\<close>

record config =
  used_pins :: "(int \<times> string) list"
  echo :: string
  reserved_channels :: "int list"

text \<open>
  The constants \<open>RPIO.IN\<close> and \<open>RPIO.OUT\<close> belong to the driver library, which is not
  part of the repository: they are parameters of the model.
\<close>

record rpio =
  rpio_IN :: int
  rpio_OUT :: int

text \<open>
  The state the code works on: the \<open>Config\<close> object, the calls \<open>RPIO.setup(pin, mode)\<close>
  issued to the driver (oldest first), the warnings emitted, and the dictionaries of
  \<open>OutputController\<close>. The actuator registries are defined with the actuators below.
\<close>

datatype warning =
    ReplacingChannel cycle
      \<comment> \<open>io_controller.py 236: \<open>'replacing servo channel with update_cycle {}'\<close>\<close>
  | ReleaseUnclaimed
      \<comment> \<open>utility.py 34: \<open>'tried to release unclaimed pin'\<close>\<close>

record hardware =
  config :: config
  setup_calls :: "(int \<times> int) list"
  warnings :: "warning list"

section \<open>utility.py\<close>

text \<open>\<open>io_type in ('in', 'IN', RPIO.IN)\<close>: equality with one of the three values.\<close>

fun is_input :: "rpio \<Rightarrow> pyobj \<Rightarrow> bool" where
  "is_input K (PyStr s) = (s = ''in'' \<or> s = ''IN'')"
| "is_input K (PyInt n) = (n = rpio_IN K)"
| "is_input K (PyBool b) = ((if b then 1 else 0) = rpio_IN K)"
| "is_input K _ = False"

text \<open>
  \<open>claim_pin(pin, config, io_type, comment)\<close>. Reading \<open>config.used_pins\<close> needs the
  \<open>Config\<close> object; any other argument in its place has no such attribute. The driver call
  \<open>RPIO.setup\<close> comes before the claim is recorded.
\<close>

definition claim_pin ::
  "rpio \<Rightarrow> int \<Rightarrow> pyobj \<Rightarrow> pyobj \<Rightarrow> string \<Rightarrow> 'a hardware_scheme
    \<Rightarrow> (error + unit) \<times> 'a hardware_scheme" where
  "claim_pin K pin cfg io_type comment st =
     (case cfg of
        PyConfig \<Rightarrow>
          if has_key (used_pins (config st)) pin then (Inl (PinAlreadyClaimed pin), st)
          else
            let mode = (if is_input K io_type then rpio_IN K else rpio_OUT K) in
            (Inr (),
             st\<lparr>setup_calls := setup_calls st @ [(pin, mode)],
                config := (config st)\<lparr>used_pins :=
                  AList.update pin comment (used_pins (config st))\<rparr>\<rparr>)
      | _ \<Rightarrow> (Inl (NoSuchAttribute ''used_pins''), st))"

text \<open>\<open>release_pin(pin, config)\<close>.\<close>

definition release_pin :: "int \<Rightarrow> 'a hardware_scheme \<Rightarrow> 'a hardware_scheme" where
  "release_pin pin st =
     (if has_key (used_pins (config st)) pin
      then st\<lparr>config := (config st)\<lparr>used_pins := AList.delete pin (used_pins (config st))\<rparr>\<rparr>
      else if echo (config st) \<noteq> [] then st\<lparr>warnings := warnings st @ [ReleaseUnclaimed]\<rparr>
      else st)"

section \<open>io_controller.py: the actuators\<close>

subsection \<open>Attribute assignment and the base class\<close>

text \<open>
  \<open>Servo\<close> and \<open>ContinousServo\<close> bind the name \<open>pulse\<close> to a property in the class
  body (lines 112 and 142), with a getter and no setter. A property is found on the class
  before the instance is looked at, for reading and for writing: \<open>self.pulse = v\<close> raises,
  and \<open>self.pulse\<close> calls the getter. \<open>LED\<close> has no property.
\<close>

datatype pyclass = Servo_class | ContinousServo_class | LED_class

fun properties :: "pyclass \<Rightarrow> string list" where
  "properties Servo_class = [''pulse'']"
| "properties ContinousServo_class = [''pulse'']"
| "properties LED_class = []"

text \<open>
  The assignments \<open>self.a = ...\<close> of a constructor, in the order of the source: the first
  one that names a property of the class raises, and the later ones are not reached.
\<close>

definition assign_all :: "pyclass \<Rightarrow> string list \<Rightarrow> error + unit" where
  "assign_all cls attrs =
     (case find (\<lambda>a. a \<in> set (properties cls)) attrs of
        Some a \<Rightarrow> Inl (NoSetter a)
      | None \<Rightarrow> Inr ())"

text \<open>
  \<open>ABCServo.__init__(self, controller, name, pin, channel)\<close>: five positional
  parameters, \<open>self\<close> included. The argument list is the one the caller passes, \<open>self\<close>
  first. The fields keep whatever object was passed.
\<close>

record abc =
  abc_controller :: pyobj
  abc_channel :: pyobj
  abc_name :: pyobj
  abc_pin :: pyobj

definition ABCServo_init :: "pyclass \<Rightarrow> pyobj list \<Rightarrow> error + abc" where
  "ABCServo_init cls args =
     (case args of
        [self, controller, name, pin, channel] \<Rightarrow>
          (case assign_all cls [''controller'', ''channel'', ''name'', ''pin''] of
             Inl e \<Rightarrow> Inl e
           | Inr _ \<Rightarrow>
               Inr \<lparr>abc_controller = controller, abc_channel = channel,
                    abc_name = name, abc_pin = pin\<rparr>)
      | _ \<Rightarrow> Inl (WrongArity 5 (length args)))"

subsection \<open>Numbers\<close>

text \<open>
  Angles, speeds, brightness and pulse widths are Python numbers (\<open>int\<close> or \<open>float\<close>);
  the model computes with rationals, which is exact for the comparisons of the source and
  leaves the rounding of \<open>float\<close> arithmetic out. What a property getter or \<open>sorted\<close>
  returns is a number or a sequence of numbers.
\<close>

datatype pyval = Number rat | Sequence "rat list"

fun py_max :: "pyval \<Rightarrow> error + rat" where
  "py_max (Number x) = Inl NotIterable"
| "py_max (Sequence []) = Inl EmptySequence"
| "py_max (Sequence (x # xs)) = Inr (fold max xs x)"

fun py_min :: "pyval \<Rightarrow> error + rat" where
  "py_min (Number x) = Inl NotIterable"
| "py_min (Sequence []) = Inl EmptySequence"
| "py_min (Sequence (x # xs)) = Inr (fold min xs x)"

definition py_div :: "rat \<Rightarrow> rat \<Rightarrow> error + rat" where
  "py_div x y = (if y = 0 then Inl DivisionByZero else Inr (x / y))"

definition py_floordiv :: "rat \<Rightarrow> rat \<Rightarrow> error + rat" where
  "py_floordiv x y = (if y = 0 then Inl DivisionByZero else Inr (of_int \<lfloor>x / y\<rfloor>))"

subsection \<open>Servo\<close>

text \<open>
  The attributes a \<open>Servo\<close> instance can hold: those of the base class, \<open>range\<close>,
  \<open>reverse\<close> and \<open>angle\<close>. There is no attribute for the pulse bounds: the name
  \<open>pulse\<close> is the property.
\<close>

record servo = abc +
  range_s :: rat
  reverse_s :: bool
  angle :: rat

text \<open>
  \<open>Servo.__init__\<close>, lines 82 to 88: \<open>super().__init__(controller, name, pin, channel)\<close>,
  then the assignments to \<open>range\<close>, \<open>pulse\<close> (\<open>sorted(pulse)\<close>), \<open>reverse\<close> and
  \<open>angle\<close>.
\<close>

definition Servo_init ::
  "pyobj \<Rightarrow> pyobj \<Rightarrow> pyobj \<Rightarrow> pyobj \<Rightarrow> rat \<Rightarrow> rat list \<Rightarrow> bool \<Rightarrow> error + servo" where
  "Servo_init controller name pin channel range_of_motion pulse reverse =
     (case ABCServo_init Servo_class [PySelf, controller, name, pin, channel] of
        Inl e \<Rightarrow> Inl e
      | Inr base \<Rightarrow>
          (case assign_all Servo_class [''range'', ''pulse'', ''reverse'', ''angle''] of
             Inl e \<Rightarrow> Inl e
           | Inr _ \<Rightarrow>
               Inr (abc.extend base
                      \<lparr>range_s = range_of_motion, reverse_s = reverse, angle = 0\<rparr>)))"

text \<open>
  The getter of \<open>Servo.pulse\<close>, lines 113 to 124. Every \<open>self.pulse\<close> in its body is
  a call of the getter itself; \<open>depth\<close> is the number of nested calls the interpreter
  still allows, and at 0 the call raises \<open>RecursionError\<close>. \<open>pulse_incr\<close> is what the
  driver's \<open>get_pulse_incr_us()\<close> returns.
\<close>

fun Servo_pulse :: "nat \<Rightarrow> rat \<Rightarrow> servo \<Rightarrow> error + pyval" where
  "Servo_pulse 0 pulse_incr s = Inl RecursionLimit"
| "Servo_pulse (Suc depth) pulse_incr s =
     (case py_div (angle s) (range_s s) of
        Inl e \<Rightarrow> Inl e
      | Inr ratio \<Rightarrow>
     let position_ratio = ratio * (if reverse_s s then - 1 else 1) in
     (case Servo_pulse depth pulse_incr s of Inl e \<Rightarrow> Inl e | Inr p1 \<Rightarrow>
     (case py_max p1 of Inl e \<Rightarrow> Inl e | Inr hi \<Rightarrow>
     (case Servo_pulse depth pulse_incr s of Inl e \<Rightarrow> Inl e | Inr p2 \<Rightarrow>
     (case py_min p2 of Inl e \<Rightarrow> Inl e | Inr lo \<Rightarrow>
     let pulse_range = hi - lo in
     (case Servo_pulse depth pulse_incr s of Inl e \<Rightarrow> Inl e | Inr p3 \<Rightarrow>
     (case py_min p3 of Inl e \<Rightarrow> Inl e | Inr lo' \<Rightarrow>
     let pulse = pulse_range * position_ratio + lo' in
     (case py_floordiv pulse pulse_incr of
        Inl e \<Rightarrow> Inl e
      | Inr q \<Rightarrow> Inr (Number (q * pulse_incr))))))))))"

text \<open>
  \<open>ABCServo.update\<close> for a \<open>Servo\<close>, lines 35 to 40: the pulse is read, and
  \<open>self.controller.set_servo\<close> is looked up. Neither \<open>OutputController\<close> nor any other
  object of the model has an attribute \<open>set_servo\<close>.
\<close>

definition Servo_update :: "nat \<Rightarrow> rat \<Rightarrow> servo \<Rightarrow> error + unit" where
  "Servo_update depth pulse_incr s =
     (case Servo_pulse depth pulse_incr s of
        Inl e \<Rightarrow> Inl e
      | Inr p \<Rightarrow> Inl (NoSuchAttribute ''set_servo''))"

text \<open>
  \<open>Servo.set\<close>, lines 90 to 101. The angle is stored before \<open>update\<close> runs, so it stays
  stored when \<open>update\<close> raises.
\<close>

definition Servo_set :: "nat \<Rightarrow> rat \<Rightarrow> servo \<Rightarrow> rat \<Rightarrow> (error + unit) \<times> servo" where
  "Servo_set depth pulse_incr s a =
     (if \<not> (0 < a \<and> a < range_s s) then (Inl InvalidAngle, s)
      else let s' = s\<lparr>angle := a\<rparr> in (Servo_update depth pulse_incr s', s'))"

definition Servo_increment ::
  "nat \<Rightarrow> rat \<Rightarrow> servo \<Rightarrow> rat \<Rightarrow> (error + unit) \<times> servo" where
  "Servo_increment depth pulse_incr s change = Servo_set depth pulse_incr s (angle s + change)"

subsection \<open>ContinousServo\<close>

text \<open>
  \<open>ContinousServo.__init__(self, controller, name, pin, channel, pulse, reverse=False)\<close>,
  lines 129 to 132. It passes \<open>self\<close> to the bound \<open>super().__init__\<close>, which then gets
  six arguments. \<open>pulse\<close> is not used in the body.
\<close>

record cservo = abc +
  reverse_c :: pyobj
  speed :: rat

definition ContinousServo_init ::
  "pyobj \<Rightarrow> pyobj \<Rightarrow> pyobj \<Rightarrow> pyobj \<Rightarrow> pyobj \<Rightarrow> pyobj \<Rightarrow> error + cservo" where
  "ContinousServo_init controller name pin channel pulse reverse =
     (case ABCServo_init ContinousServo_class
             [PySelf, PySelf, controller, name, pin, channel] of
        Inl e \<Rightarrow> Inl e
      | Inr base \<Rightarrow>
          (case assign_all ContinousServo_class [''reverse'', ''speed''] of
             Inl e \<Rightarrow> Inl e
           | Inr _ \<Rightarrow> Inr (abc.extend base \<lparr>reverse_c = reverse, speed = 0\<rparr>)))"

definition ContinousServo_set :: "cservo \<Rightarrow> rat \<Rightarrow> (error + unit) \<times> cservo" where
  "ContinousServo_set s v =
     (if \<not> (- 1 < v \<and> v < 1) then (Inl InvalidSpeed, s)
      else (Inr (), s\<lparr>speed := v\<rparr>))"

definition ContinousServo_increment :: "cservo \<Rightarrow> rat \<Rightarrow> (error + unit) \<times> cservo" where
  "ContinousServo_increment s change = ContinousServo_set s (speed s + change)"

text \<open>The getter of \<open>ContinousServo.pulse\<close>, lines 143 to 146, with the same recursion.\<close>

fun ContinousServo_pulse :: "nat \<Rightarrow> cservo \<Rightarrow> error + pyval" where
  "ContinousServo_pulse 0 s = Inl RecursionLimit"
| "ContinousServo_pulse (Suc depth) s =
     (case ContinousServo_pulse depth s of Inl e \<Rightarrow> Inl e | Inr p1 \<Rightarrow>
     (case py_min p1 of Inl e \<Rightarrow> Inl e | Inr lo \<Rightarrow>
     (case ContinousServo_pulse depth s of Inl e \<Rightarrow> Inl e | Inr p2 \<Rightarrow>
     (case py_max p2 of Inl e \<Rightarrow> Inl e | Inr hi \<Rightarrow>
     let zero_pulse = (lo + hi) / 2 in
     (case ContinousServo_pulse depth s of Inl e \<Rightarrow> Inl e | Inr p3 \<Rightarrow>
     (case py_max p3 of Inl e \<Rightarrow> Inl e | Inr hi' \<Rightarrow>
     (case ContinousServo_pulse depth s of Inl e \<Rightarrow> Inl e | Inr p4 \<Rightarrow>
     (case py_min p4 of Inl e \<Rightarrow> Inl e | Inr lo' \<Rightarrow>
     let pulse_range = hi' - lo' in
     Inr (Number (zero_pulse + speed s * pulse_range / 2))))))))))"

subsection \<open>LED\<close>

record led =
  led_name :: string
  led_pin :: int
  led_channel :: int
  brightness :: rat

definition LED_init :: "string \<Rightarrow> int \<Rightarrow> int \<Rightarrow> error + led" where
  "LED_init name pin channel =
     (case assign_all LED_class [''name'', ''pin'', ''channel'', ''brightness''] of
        Inl e \<Rightarrow> Inl e
      | Inr _ \<Rightarrow>
          Inr \<lparr>led_name = name, led_pin = pin, led_channel = channel, brightness = 0\<rparr>)"

definition LED_set :: "led \<Rightarrow> rat \<Rightarrow> (error + unit) \<times> led" where
  "LED_set l b =
     (if \<not> (0 < b \<and> b < 100) then (Inl InvalidBrightness, l)
      else (Inr (), l\<lparr>brightness := b\<rparr>))"

section \<open>io_controller.py: OutputController\<close>

datatype actuator = A_Servo servo | A_ContinousServo cservo

text \<open>
  The dictionaries of \<open>OutputController.__init__\<close>, lines 172 to 184, on top of the
  \<open>Config\<close> object and the driver it works with. The keys of \<open>update_channels\<close> are
  update cycles and its values channel ids; the keys of \<open>channel_servos\<close> are channel ids.
\<close>

record controller = hardware +
  update_channels :: "(cycle \<times> int) list"
  channel_servos :: "(int \<times> pwm_servo) list"
  servos :: "(string \<times> actuator) list"
  actuators :: "(string \<times> actuator) list"
  leds :: "(string \<times> led) list"

definition OutputController_init :: "config \<Rightarrow> controller" where
  "OutputController_init cfg =
     \<lparr>config = cfg, setup_calls = [], warnings = [],
      update_channels = [], channel_servos = [], servos = [], actuators = [], leds = []\<rparr>"

text \<open>
  \<open>get_dma_channel\<close>, lines 245 to 252: the ids of \<open>range(15)\<close> that are neither reserved
  nor a key of \<open>channel_servos\<close>, in ascending order; the first of them, or \<open>None\<close>.
\<close>

definition available :: "controller \<Rightarrow> int list" where
  "available st =
     filter (\<lambda>x. x \<notin> set (reserved_channels (config st)) \<and> \<not> has_key (channel_servos st) x)
       [0..14]"

definition get_dma_channel :: "controller \<Rightarrow> int option" where
  "get_dma_channel st = (case available st of [] \<Rightarrow> None | x # _ \<Rightarrow> Some x)"

text \<open>
  \<open>new_dma_channel(update_cycle=None, channel=None)\<close>, lines 233 to 243. The binding is
  written to \<open>update_channels\<close> only.
\<close>

definition new_dma_channel ::
  "controller \<Rightarrow> cycle \<Rightarrow> int option \<Rightarrow> (error + int) \<times> controller" where
  "new_dma_channel st update_cycle channel =
     (let st1 =
            (if has_key (update_channels st) update_cycle \<and> echo (config st) \<noteq> []
             then st\<lparr>warnings := warnings st @ [ReplacingChannel update_cycle]\<rparr>
             else st)
      in case (case channel of None \<Rightarrow> get_dma_channel st1 | Some c \<Rightarrow> Some c) of
           None \<Rightarrow> (Inl NoDmaChannel, st1)
         | Some c \<Rightarrow>
             (Inr c,
              st1\<lparr>update_channels := AList.update update_cycle c (update_channels st1)\<rparr>))"

text \<open>\<open>new_servo_channel(update_cycle, channel=None)\<close>, lines 227 to 231.\<close>

definition new_servo_channel ::
  "controller \<Rightarrow> cycle \<Rightarrow> int option \<Rightarrow> (error + pwm_servo) \<times> controller" where
  "new_servo_channel st update_cycle channel =
     (case new_dma_channel st update_cycle channel of
        (Inl e, st1) \<Rightarrow> (Inl e, st1)
      | (Inr c, st1) \<Rightarrow>
          (let servo_channel = PWM_Servo c update_cycle
           in (Inr servo_channel,
               st1\<lparr>channel_servos := AList.update c servo_channel (channel_servos st1)\<rparr>)))"

text \<open>
  The \<open>try\<close> block of \<open>get_servo_channel\<close>, lines 214 to 218: \<open>None\<close> stands for the
  \<open>KeyError\<close> or \<open>IndexError\<close> the handler catches. Without an update cycle the oldest
  key of \<open>update_channels\<close> is used.
\<close>

definition lookup_servo_channel :: "controller \<Rightarrow> cycle \<Rightarrow> pwm_servo option" where
  "lookup_servo_channel st update_cycle =
     (case update_cycle of
        None \<Rightarrow>
          (case update_channels st of
             [] \<Rightarrow> None
           | (k, c) # _ \<Rightarrow> map_of (channel_servos st) c)
      | Some u \<Rightarrow>
          (case map_of (update_channels st) update_cycle of
             None \<Rightarrow> None
           | Some c \<Rightarrow> map_of (channel_servos st) c))"

text \<open>
  \<open>get_servo_channel(update_cycle=None)\<close>, lines 213 to 225. The handler tests the
  update cycle against the keys of \<open>channel_servos\<close>, which are channel ids; \<open>None\<close> is
  never such a key.
\<close>

definition get_servo_channel ::
  "controller \<Rightarrow> cycle \<Rightarrow> (error + pwm_servo) \<times> controller" where
  "get_servo_channel st update_cycle =
     (case lookup_servo_channel st update_cycle of
        Some servo_channel \<Rightarrow> (Inr servo_channel, st)
      | None \<Rightarrow>
          if \<not> (case update_cycle of None \<Rightarrow> False | Some u \<Rightarrow> has_key (channel_servos st) u)
          then new_servo_channel st update_cycle None
          else (Inl (ChannelInconsistency update_cycle), st))"

text \<open>
  \<open>new_servo\<close>, lines 186 to 193. \<open>claim_pin\<close> is called with \<open>RPIO.OUT\<close> in the place
  of \<open>config\<close> and \<open>self.config\<close> in the place of \<open>io_type\<close>, as the source has it. The
  registry is written under the string \<open>'name'\<close>.
\<close>

definition new_servo ::
  "rpio \<Rightarrow> controller \<Rightarrow> string \<Rightarrow> int \<Rightarrow> cycle \<Rightarrow> rat \<Rightarrow> rat list \<Rightarrow> bool
    \<Rightarrow> (error + servo) \<times> controller" where
  "new_servo K st name pin update range_of_motion pulse reverse =
     (case get_servo_channel st update of
        (Inl e, st1) \<Rightarrow> (Inl e, st1)
      | (Inr channel, st1) \<Rightarrow>
     (case claim_pin K pin (PyInt (rpio_OUT K)) PyConfig (''servo '' @ name) st1 of
        (Inl e, st2) \<Rightarrow> (Inl e, st2)
      | (Inr _, st2) \<Rightarrow>
     (case Servo_init PyController (PyStr name) (PyInt pin) (PyChannel channel)
             range_of_motion pulse reverse of
        Inl e \<Rightarrow> (Inl e, st2)
      | Inr servo \<Rightarrow>
          (Inr servo, st2\<lparr>servos := AList.update ''name'' (A_Servo servo) (servos st2)\<rparr>))))"

text \<open>
  \<open>new_continuous_servo\<close>, lines 195 to 201. \<open>ContinousServo(name, pin, channel, pulse,
  reverse)\<close> binds its five arguments to the parameters \<open>controller, name, pin, channel,
  pulse\<close>; \<open>reverse\<close> keeps its default \<open>False\<close>.
\<close>

definition new_continuous_servo ::
  "rpio \<Rightarrow> controller \<Rightarrow> string \<Rightarrow> int \<Rightarrow> rat list \<Rightarrow> bool
    \<Rightarrow> (error + cservo) \<times> controller" where
  "new_continuous_servo K st name pin pulse reverse =
     (case get_servo_channel st None of
        (Inl e, st1) \<Rightarrow> (Inl e, st1)
      | (Inr channel, st1) \<Rightarrow>
     (case claim_pin K pin (PyInt (rpio_OUT K)) PyConfig (''continuous servo '' @ name) st1 of
        (Inl e, st2) \<Rightarrow> (Inl e, st2)
      | (Inr _, st2) \<Rightarrow>
     (case ContinousServo_init (PyStr name) (PyInt pin) (PyChannel channel) (PyNums pulse)
             (PyBool reverse) (PyBool False) of
        Inl e \<Rightarrow> (Inl e, st2)
      | Inr servo \<Rightarrow>
          (Inr servo,
           st2\<lparr>servos := AList.update ''name'' (A_ContinousServo servo) (servos st2)\<rparr>))))"

text \<open>
  \<open>new_led\<close>, lines 203 to 211: the channel of the oldest key of \<open>update_channels\<close>, or
  \<open>new_dma_channel()\<close> when there is no key.
\<close>

definition new_led ::
  "rpio \<Rightarrow> controller \<Rightarrow> string \<Rightarrow> int \<Rightarrow> (error + led) \<times> controller" where
  "new_led K st name pin =
     (case (case update_channels st of
              (k, c) # _ \<Rightarrow> (Inr c, st)
            | [] \<Rightarrow> new_dma_channel st None None) of
        (Inl e, st1) \<Rightarrow> (Inl e, st1)
      | (Inr channel, st1) \<Rightarrow>
     (case claim_pin K pin (PyInt (rpio_OUT K)) PyConfig (''led '' @ name) st1 of
        (Inl e, st2) \<Rightarrow> (Inl e, st2)
      | (Inr _, st2) \<Rightarrow>
     (case LED_init name pin channel of
        Inl e \<Rightarrow> (Inl e, st2)
      | Inr led \<Rightarrow> (Inr led, st2\<lparr>leds := AList.update ''name'' led (leds st2)\<rparr>))))"

section \<open>Sequences of calls\<close>

text \<open>
  A caller's sequence of \<open>set\<close> and \<open>increment\<close> calls on one actuator. The run goes on
  as long as no call raises the invalid-value error, and is \<open>None\<close> once one does.
  (\<open>LED\<close> has no \<open>increment\<close>.)
\<close>

datatype command = Set rat | Increment rat

fun Servo_run :: "nat \<Rightarrow> rat \<Rightarrow> servo \<Rightarrow> command list \<Rightarrow> servo option" where
  "Servo_run depth pulse_incr s [] = Some s"
| "Servo_run depth pulse_incr s (c # cs) =
     (case (case c of
              Set v \<Rightarrow> Servo_set depth pulse_incr s v
            | Increment x \<Rightarrow> Servo_increment depth pulse_incr s x) of
        (r, s') \<Rightarrow> if r = Inl InvalidAngle then None else Servo_run depth pulse_incr s' cs)"

fun ContinousServo_run :: "cservo \<Rightarrow> command list \<Rightarrow> cservo option" where
  "ContinousServo_run s [] = Some s"
| "ContinousServo_run s (c # cs) =
     (case (case c of
              Set v \<Rightarrow> ContinousServo_set s v
            | Increment x \<Rightarrow> ContinousServo_increment s x) of
        (r, s') \<Rightarrow> if r = Inl InvalidSpeed then None else ContinousServo_run s' cs)"

fun LED_run :: "led \<Rightarrow> rat list \<Rightarrow> led option" where
  "LED_run l [] = Some l"
| "LED_run l (b # bs) =
     (case LED_set l b of
        (r, l') \<Rightarrow> if r = Inl InvalidBrightness then None else LED_run l' bs)"

text \<open>
  A caller's sequence of channel allocations, one \<open>new_servo_channel(update_cycle)\<close> per
  update cycle, with the outcome of each call; the caller goes on after a call that raised.
\<close>

fun allocate_all :: "controller \<Rightarrow> cycle list \<Rightarrow> (error + pwm_servo) list \<times> controller" where
  "allocate_all st [] = ([], st)"
| "allocate_all st (u # us) =
     (case new_servo_channel st u None of
        (r, st1) \<Rightarrow> (case allocate_all st1 us of (rs, st2) \<Rightarrow> (r # rs, st2)))"

section \<open>Facts about dictionaries\<close>

lemma update_absent: "\<not> has_key d k \<Longrightarrow> AList.update k v d = d @ [(k, v)]"
  by (induction d) (auto simp: has_key_def)

lemma has_key_update: "has_key (AList.update k v d) k' = (k' = k \<or> has_key d k')"
  by (auto simp: has_key_def AList.dom_update)

lemma map_of_update_same: "map_of (AList.update k v d) k = Some v"
  by (simp add: AList.update_conv')

lemma map_of_update_other: "k' \<noteq> k \<Longrightarrow> map_of (AList.update k v d) k' = map_of d k'"
  by (simp add: AList.update_conv')

lemma has_key_map_of: "has_key d k = (map_of d k \<noteq> None)"
  by (simp add: has_key_def map_of_eq_None_iff)

section \<open>Pins\<close>

text \<open>
  C5. For every pin \<open>p\<close>, \<open>claim_pin\<close> on the \<open>Config\<close> object fails with the
  already-claimed error and leaves the state as it is when \<open>p\<close> is a key of \<open>used_pins\<close>.
  When \<open>p\<close> is absent it issues \<open>RPIO.setup(p, mode)\<close> to the driver and records
  \<open>p\<close> with the supplied comment, so that \<open>used_pins[p]\<close> is the comment and a second
  claim of \<open>p\<close> fails.
\<close>

theorem C5_claim_pin:
  "(has_key (used_pins (config st)) p \<longrightarrow>
      claim_pin K p PyConfig io c st = (Inl (PinAlreadyClaimed p), st)) \<and>
   (\<not> has_key (used_pins (config st)) p \<longrightarrow>
      claim_pin K p PyConfig io c st =
        (Inr (),
         st\<lparr>setup_calls :=
               setup_calls st @ [(p, if is_input K io then rpio_IN K else rpio_OUT K)],
            config := (config st)\<lparr>used_pins := used_pins (config st) @ [(p, c)]\<rparr>\<rparr>) \<and>
      map_of (used_pins (config (snd (claim_pin K p PyConfig io c st)))) p = Some c \<and>
      claim_pin K p PyConfig io' c' (snd (claim_pin K p PyConfig io c st)) =
        (Inl (PinAlreadyClaimed p), snd (claim_pin K p PyConfig io c st)))"
proof (intro conjI impI)
  assume "has_key (used_pins (config st)) p"
  then show "claim_pin K p PyConfig io c st = (Inl (PinAlreadyClaimed p), st)"
    by (simp add: claim_pin_def)
next
  assume absent: "\<not> has_key (used_pins (config st)) p"
  then show eq: "claim_pin K p PyConfig io c st =
        (Inr (),
         st\<lparr>setup_calls :=
               setup_calls st @ [(p, if is_input K io then rpio_IN K else rpio_OUT K)],
            config := (config st)\<lparr>used_pins := used_pins (config st) @ [(p, c)]\<rparr>\<rparr>)"
    by (simp add: claim_pin_def Let_def update_absent)
  from absent have none: "map_of (used_pins (config st)) p = None"
    by (simp add: has_key_map_of)
  show "map_of (used_pins (config (snd (claim_pin K p PyConfig io c st)))) p = Some c"
    by (simp add: eq none map_add_def)
  show "claim_pin K p PyConfig io' c' (snd (claim_pin K p PyConfig io c st)) =
        (Inl (PinAlreadyClaimed p), snd (claim_pin K p PyConfig io c st))"
    by (simp add: eq) (simp add: claim_pin_def has_key_def)
qed

theorem C5_claim_pin_witness:
  "claim_pin \<lparr>rpio_IN = 1, rpio_OUT = 0\<rparr> 11 PyConfig (PyStr ''out'') ''servo a''
      \<lparr>config = \<lparr>used_pins = [(7, ''led b'')], echo = [], reserved_channels = []\<rparr>,
       setup_calls = [], warnings = []\<rparr> =
     (Inr (),
      \<lparr>config = \<lparr>used_pins = [(7, ''led b''), (11, ''servo a'')], echo = [],
                 reserved_channels = []\<rparr>,
       setup_calls = [(11, 0)], warnings = []\<rparr>) \<and>
   claim_pin \<lparr>rpio_IN = 1, rpio_OUT = 0\<rparr> 7 PyConfig (PyStr ''out'') ''servo a''
      \<lparr>config = \<lparr>used_pins = [(7, ''led b'')], echo = [], reserved_channels = []\<rparr>,
       setup_calls = [], warnings = []\<rparr> =
     (Inl (PinAlreadyClaimed 7),
      \<lparr>config = \<lparr>used_pins = [(7, ''led b'')], echo = [], reserved_channels = []\<rparr>,
       setup_calls = [], warnings = []\<rparr>)"
  using
    C5_claim_pin [where st = "\<lparr>config = \<lparr>used_pins = [(7, ''led b'')], echo = [],
        reserved_channels = []\<rparr>, setup_calls = [], warnings = []\<rparr>" and p = 11
      and K = "\<lparr>rpio_IN = 1, rpio_OUT = 0\<rparr>" and io = "PyStr ''out''" and c = "''servo a''"]
    C5_claim_pin [where st = "\<lparr>config = \<lparr>used_pins = [(7, ''led b'')], echo = [],
        reserved_channels = []\<rparr>, setup_calls = [], warnings = []\<rparr>" and p = 7
      and K = "\<lparr>rpio_IN = 1, rpio_OUT = 0\<rparr>" and io = "PyStr ''out''" and c = "''servo a''"]
  by (simp add: has_key_def)

section \<open>Actuators\<close>

text \<open>
  The getters never return a pulse: each call of \<open>pulse\<close> calls \<open>pulse\<close> again (a
  Servo after dividing \<open>angle\<close> by \<open>range\<close>), until the call depth is used up.
\<close>

lemma Servo_pulse_raises:
  "Servo_pulse depth pulse_incr s =
     Inl (if depth = 0 \<or> range_s s \<noteq> 0 then RecursionLimit else DivisionByZero)"
proof (induction depth)
  case 0
  show ?case by simp
next
  case (Suc depth)
  show ?case
  proof (cases "range_s s = 0")
    case True
    then show ?thesis by (simp add: py_div_def)
  next
    case False
    then show ?thesis using Suc by (simp add: py_div_def Let_def)
  qed
qed

lemma ContinousServo_pulse_raises: "ContinousServo_pulse depth s = Inl RecursionLimit"
  by (induction depth) simp_all

lemma Servo_set_outside:
  "\<not> (0 < v \<and> v < range_s s) \<Longrightarrow> Servo_set depth pulse_incr s v = (Inl InvalidAngle, s)"
  by (simp add: Servo_set_def)

lemma Servo_set_inside:
  "0 < v \<Longrightarrow> v < range_s s \<Longrightarrow>
   Servo_set depth pulse_incr s v = (Inl RecursionLimit, s\<lparr>angle := v\<rparr>)"
  by (simp add: Servo_set_def Servo_update_def Servo_pulse_raises Let_def)

text \<open>
  C8. For each actuator kind, \<open>set(v)\<close> raises the kind's invalid-value error exactly when
  \<open>v\<close> is outside the open interval (\<open>(0, range)\<close> for a Servo, \<open>(-1, 1)\<close> for a
  ContinousServo, \<open>(0, 100)\<close> for an LED); both ends of the interval are refused; and when
  the error is raised the actuator is as it was. For a ContinousServo and an LED a value
  inside the interval is stored and the call returns.
\<close>

theorem C8_set_refuses_outside_open_interval:
  "(fst (Servo_set depth pulse_incr s v) = Inl InvalidAngle \<longleftrightarrow> \<not> (0 < v \<and> v < range_s s)) \<and>
   (fst (Servo_set depth pulse_incr s v) = Inl InvalidAngle \<longrightarrow>
      snd (Servo_set depth pulse_incr s v) = s) \<and>
   Servo_set depth pulse_incr s 0 = (Inl InvalidAngle, s) \<and>
   Servo_set depth pulse_incr s (range_s s) = (Inl InvalidAngle, s) \<and>
   (fst (ContinousServo_set cs v) = Inl InvalidSpeed \<longleftrightarrow> \<not> (- 1 < v \<and> v < 1)) \<and>
   (fst (ContinousServo_set cs v) = Inl InvalidSpeed \<longrightarrow> snd (ContinousServo_set cs v) = cs) \<and>
   (fst (ContinousServo_set cs v) \<noteq> Inl InvalidSpeed \<longrightarrow>
      ContinousServo_set cs v = (Inr (), cs\<lparr>speed := v\<rparr>)) \<and>
   ContinousServo_set cs (- 1) = (Inl InvalidSpeed, cs) \<and>
   ContinousServo_set cs 1 = (Inl InvalidSpeed, cs) \<and>
   (fst (LED_set l v) = Inl InvalidBrightness \<longleftrightarrow> \<not> (0 < v \<and> v < 100)) \<and>
   (fst (LED_set l v) = Inl InvalidBrightness \<longrightarrow> snd (LED_set l v) = l) \<and>
   (fst (LED_set l v) \<noteq> Inl InvalidBrightness \<longrightarrow>
      LED_set l v = (Inr (), l\<lparr>brightness := v\<rparr>)) \<and>
   LED_set l 0 = (Inl InvalidBrightness, l) \<and>
   LED_set l 100 = (Inl InvalidBrightness, l)"
proof -
  have servo: "fst (Servo_set depth pulse_incr s v) = Inl InvalidAngle \<longleftrightarrow>
      \<not> (0 < v \<and> v < range_s s)"
    by (cases "0 < v \<and> v < range_s s") (simp_all add: Servo_set_inside Servo_set_outside)
  have servo_same: "fst (Servo_set depth pulse_incr s v) = Inl InvalidAngle \<longrightarrow>
      snd (Servo_set depth pulse_incr s v) = s"
    using servo by (simp add: Servo_set_outside)
  have cont: "fst (ContinousServo_set cs v) = Inl InvalidSpeed \<longleftrightarrow> \<not> (- 1 < v \<and> v < 1)"
    by (simp add: ContinousServo_set_def)
  have led: "fst (LED_set l v) = Inl InvalidBrightness \<longleftrightarrow> \<not> (0 < v \<and> v < 100)"
    by (simp add: LED_set_def)
  show ?thesis
    using servo servo_same cont led
    by (simp add: Servo_set_outside) (simp add: ContinousServo_set_def LED_set_def)
qed

theorem C8_set_refuses_outside_open_interval_witness:
  "Servo_set 1000 (1 / 10)
      \<lparr>abc_controller = PyController, abc_channel = PyChannel (PWM_Servo 0 (Some 20000)),
       abc_name = PyStr ''a'', abc_pin = PyInt 11,
       range_s = 90, reverse_s = False, angle = 30\<rparr> 90 =
     (Inl InvalidAngle,
      \<lparr>abc_controller = PyController, abc_channel = PyChannel (PWM_Servo 0 (Some 20000)),
       abc_name = PyStr ''a'', abc_pin = PyInt 11,
       range_s = 90, reverse_s = False, angle = 30\<rparr>) \<and>
   ContinousServo_set
      \<lparr>abc_controller = PyController, abc_channel = PyChannel (PWM_Servo 0 None),
       abc_name = PyStr ''c'', abc_pin = PyInt 12, reverse_c = PyBool False, speed = 0\<rparr>
      (1 / 2) =
     (Inr (),
      \<lparr>abc_controller = PyController, abc_channel = PyChannel (PWM_Servo 0 None),
       abc_name = PyStr ''c'', abc_pin = PyInt 12, reverse_c = PyBool False,
       speed = 1 / 2\<rparr>) \<and>
   ContinousServo_set
      \<lparr>abc_controller = PyController, abc_channel = PyChannel (PWM_Servo 0 None),
       abc_name = PyStr ''c'', abc_pin = PyInt 12, reverse_c = PyBool False, speed = 0\<rparr>
      (- 3 / 2) =
     (Inl InvalidSpeed,
      \<lparr>abc_controller = PyController, abc_channel = PyChannel (PWM_Servo 0 None),
       abc_name = PyStr ''c'', abc_pin = PyInt 12, reverse_c = PyBool False, speed = 0\<rparr>) \<and>
   LED_set \<lparr>led_name = ''b'', led_pin = 7, led_channel = 0, brightness = 40\<rparr> 50 =
     (Inr (), \<lparr>led_name = ''b'', led_pin = 7, led_channel = 0, brightness = 50\<rparr>) \<and>
   LED_set \<lparr>led_name = ''b'', led_pin = 7, led_channel = 0, brightness = 40\<rparr> 120 =
     (Inl InvalidBrightness, \<lparr>led_name = ''b'', led_pin = 7, led_channel = 0, brightness = 40\<rparr>)"
  using
    C8_set_refuses_outside_open_interval
      [where depth = 1000 and pulse_incr = "1 / 10" and v = 90
        and s = "\<lparr>abc_controller = PyController,
          abc_channel = PyChannel (PWM_Servo 0 (Some 20000)),
          abc_name = PyStr ''a'', abc_pin = PyInt 11,
          range_s = 90, reverse_s = False, angle = 30\<rparr>"]
    C8_set_refuses_outside_open_interval
      [where v = "1 / 2"
        and cs = "\<lparr>abc_controller = PyController, abc_channel = PyChannel (PWM_Servo 0 None),
          abc_name = PyStr ''c'', abc_pin = PyInt 12, reverse_c = PyBool False, speed = 0\<rparr>"]
    C8_set_refuses_outside_open_interval
      [where v = "- 3 / 2"
        and cs = "\<lparr>abc_controller = PyController, abc_channel = PyChannel (PWM_Servo 0 None),
          abc_name = PyStr ''c'', abc_pin = PyInt 12, reverse_c = PyBool False, speed = 0\<rparr>"]
    C8_set_refuses_outside_open_interval
      [where v = 50
        and l = "\<lparr>led_name = ''b'', led_pin = 7, led_channel = 0, brightness = 40\<rparr>"]
    C8_set_refuses_outside_open_interval
      [where v = 120
        and l = "\<lparr>led_name = ''b'', led_pin = 7, led_channel = 0, brightness = 40\<rparr>"]
  by (simp add: ContinousServo_set_def LED_set_def)

text \<open>
  C6. The claim: a Servo constructed with range 90, pulse bounds \<open>(1.0, 2.0)\<close>, not
  reversed, pulse increment 0.1, has pulse 1.5 after \<open>set(45)\<close>. The code: the constructor
  raises at \<open>self.pulse = sorted(pulse)\<close>, since \<open>pulse\<close> is a property without a setter;
  and for a Servo object with these attributes, whatever the call depth allowed,
  \<open>set(45)\<close> stores the angle and raises from \<open>update\<close>, because the getter of \<open>pulse\<close>
  never returns a pulse.
\<close>

theorem C6_servo_pulse_never_computed:
  "Servo_init PyController (PyStr ''a'') (PyInt 11) (PyChannel (PWM_Servo 0 (Some 20000)))
      90 [1, 2] False = Inl (NoSetter ''pulse'') \<and>
   Servo_set depth (1 / 10)
      \<lparr>abc_controller = PyController, abc_channel = PyChannel (PWM_Servo 0 (Some 20000)),
       abc_name = PyStr ''a'', abc_pin = PyInt 11,
       range_s = 90, reverse_s = False, angle = 0\<rparr> 45 =
     (Inl RecursionLimit,
      \<lparr>abc_controller = PyController, abc_channel = PyChannel (PWM_Servo 0 (Some 20000)),
       abc_name = PyStr ''a'', abc_pin = PyInt 11,
       range_s = 90, reverse_s = False, angle = 45\<rparr>) \<and>
   Servo_pulse depth (1 / 10)
      \<lparr>abc_controller = PyController, abc_channel = PyChannel (PWM_Servo 0 (Some 20000)),
       abc_name = PyStr ''a'', abc_pin = PyInt 11,
       range_s = 90, reverse_s = False, angle = 45\<rparr> = Inl RecursionLimit"
  by (simp add: Servo_init_def ABCServo_init_def assign_all_def Servo_set_inside
      Servo_pulse_raises)

text \<open>
  C7. The claim: a ContinousServo constructed with pulse bounds \<open>(1.0, 2.0)\<close> has pulse
  1.5 at speed 0. The code: the constructor raises at \<open>super().__init__(self, ...)\<close>, which
  passes six arguments to a function of five parameters, and it stores no pulse bounds; and
  for a ContinousServo object at speed 0, whatever the call depth allowed, the getter of
  \<open>pulse\<close> never returns a pulse.
\<close>

theorem C7_continuous_servo_pulse_never_computed:
  "ContinousServo_init PyController (PyStr ''c'') (PyInt 12)
      (PyChannel (PWM_Servo 0 (Some 20000))) (PyNums [1, 2]) (PyBool False) =
     Inl (WrongArity 5 6) \<and>
   ContinousServo_pulse depth
      \<lparr>abc_controller = PyController, abc_channel = PyChannel (PWM_Servo 0 (Some 20000)),
       abc_name = PyStr ''c'', abc_pin = PyInt 12, reverse_c = PyBool False, speed = 0\<rparr> =
     Inl RecursionLimit"
  by (simp add: ContinousServo_init_def ABCServo_init_def ContinousServo_pulse_raises)

lemma Servo_set_accepted:
  "Servo_set depth pulse_incr s v = (r, s') \<Longrightarrow> r \<noteq> Inl InvalidAngle \<Longrightarrow>
   0 < angle s' \<and> angle s' < range_s s' \<and> range_s s' = range_s s"
  by (cases "0 < v \<and> v < range_s s") (auto simp: Servo_set_inside Servo_set_outside)

lemma Servo_run_inside:
  "cmds \<noteq> [] \<Longrightarrow> Servo_run depth pulse_incr s cmds = Some s' \<Longrightarrow>
   0 < angle s' \<and> angle s' < range_s s' \<and> range_s s' = range_s s"
proof (induction cmds arbitrary: s)
  case Nil
  then show ?case by simp
next
  case (Cons c cmds)
  obtain r s1 where step:
    "(case c of Set v \<Rightarrow> Servo_set depth pulse_incr s v
      | Increment x \<Rightarrow> Servo_increment depth pulse_incr s x) = (r, s1)"
    by (cases "case c of Set v \<Rightarrow> Servo_set depth pulse_incr s v
      | Increment x \<Rightarrow> Servo_increment depth pulse_incr s x")
  from Cons.prems(2) step have ok: "r \<noteq> Inl InvalidAngle"
    and rest: "Servo_run depth pulse_incr s1 cmds = Some s'"
    by (auto split: if_splits)
  from step ok have s1: "0 < angle s1 \<and> angle s1 < range_s s1 \<and> range_s s1 = range_s s"
    by (cases c) (auto simp: Servo_increment_def dest: Servo_set_accepted)
  show ?case
  proof (cases "cmds = []")
    case True
    with rest s1 show ?thesis by simp
  next
    case False
    from Cons.IH [OF False rest] s1 show ?thesis by simp
  qed
qed

lemma ContinousServo_step_accepted:
  "(case c of Set v \<Rightarrow> ContinousServo_set s v
    | Increment x \<Rightarrow> ContinousServo_increment s x) = (r, s1) \<Longrightarrow>
   r \<noteq> Inl InvalidSpeed \<Longrightarrow> - 1 < speed s1 \<and> speed s1 < 1"
  by (cases c)
    (auto simp: ContinousServo_set_def ContinousServo_increment_def split: if_splits)

lemma ContinousServo_run_inside:
  "cmds \<noteq> [] \<Longrightarrow> ContinousServo_run s cmds = Some s' \<Longrightarrow> - 1 < speed s' \<and> speed s' < 1"
proof (induction cmds arbitrary: s)
  case Nil
  then show ?case by simp
next
  case (Cons c cmds)
  obtain r s1 where step:
    "(case c of Set v \<Rightarrow> ContinousServo_set s v
      | Increment x \<Rightarrow> ContinousServo_increment s x) = (r, s1)"
    by (cases "case c of Set v \<Rightarrow> ContinousServo_set s v
      | Increment x \<Rightarrow> ContinousServo_increment s x")
  from Cons.prems(2) step have ok: "r \<noteq> Inl InvalidSpeed"
    and rest: "ContinousServo_run s1 cmds = Some s'"
    by (auto split: if_splits)
  from ContinousServo_step_accepted [OF step ok]
  have s1: "- 1 < speed s1 \<and> speed s1 < 1" .
  show ?case
  proof (cases "cmds = []")
    case True
    with rest s1 show ?thesis by simp
  next
    case False
    from Cons.IH [OF False rest] show ?thesis .
  qed
qed

lemma LED_run_inside:
  "bs \<noteq> [] \<Longrightarrow> LED_run l bs = Some l' \<Longrightarrow> 0 < brightness l' \<and> brightness l' < 100"
proof (induction bs arbitrary: l)
  case Nil
  then show ?case by simp
next
  case (Cons b bs)
  obtain r l1 where step: "LED_set l b = (r, l1)"
    by (cases "LED_set l b")
  from Cons.prems(2) step have ok: "r \<noteq> Inl InvalidBrightness"
    and rest: "LED_run l1 bs = Some l'"
    by (auto split: if_splits)
  from step ok have l1: "0 < brightness l1 \<and> brightness l1 < 100"
    by (auto simp: LED_set_def split: if_splits)
  show ?case
  proof (cases "bs = []")
    case True
    with rest l1 show ?thesis by simp
  next
    case False
    from Cons.IH [OF False rest] show ?thesis .
  qed
qed

text \<open>
  C10, as stated: the initial value 0 of every actuator is outside the interval its
  \<open>set\<close> accepts, so that no accepted call brings it back to 0. For a ContinousServo the
  interval is \<open>(-1, 1)\<close>: at speed 1/2, \<open>set(0)\<close> is accepted and so is
  \<open>increment(-1/2)\<close>, and the speed is 0 again.
\<close>

theorem C10_continuous_servo_returns_to_zero:
  "ContinousServo_set
      \<lparr>abc_controller = PyController, abc_channel = PyChannel (PWM_Servo 0 None),
       abc_name = PyStr ''c'', abc_pin = PyInt 12, reverse_c = PyBool False,
       speed = 1 / 2\<rparr> 0 =
     (Inr (),
      \<lparr>abc_controller = PyController, abc_channel = PyChannel (PWM_Servo 0 None),
       abc_name = PyStr ''c'', abc_pin = PyInt 12, reverse_c = PyBool False, speed = 0\<rparr>) \<and>
   ContinousServo_run
      \<lparr>abc_controller = PyController, abc_channel = PyChannel (PWM_Servo 0 None),
       abc_name = PyStr ''c'', abc_pin = PyInt 12, reverse_c = PyBool False, speed = 0\<rparr>
      [Set (1 / 2), Increment (- 1 / 2)] =
     Some
      \<lparr>abc_controller = PyController, abc_channel = PyChannel (PWM_Servo 0 None),
       abc_name = PyStr ''c'', abc_pin = PyInt 12, reverse_c = PyBool False, speed = 0\<rparr>"
  by (simp add: ContinousServo_set_def ContinousServo_increment_def)

text \<open>
  C10, amended. For a Servo and an LED the initial value 0 is outside the interval that
  \<open>set\<close> accepts: \<open>set(0)\<close> raises the invalid-value error, and after any non-empty
  sequence of \<open>set\<close> and \<open>increment\<close> calls none of which raised that error, the stored
  value is strictly inside the interval (\<open>(0, range)\<close>, with \<open>range\<close> unchanged, or
  \<open>(0, 100)\<close>), hence not 0. For a ContinousServo the stored speed after such a sequence
  is strictly inside \<open>(-1, 1)\<close>, an interval that contains the initial value 0.
\<close>

theorem C10_accepted_values_inside_interval:
  "Servo_set depth pulse_incr s 0 = (Inl InvalidAngle, s) \<and>
   LED_set l 0 = (Inl InvalidBrightness, l) \<and>
   (cmds \<noteq> [] \<and> Servo_run depth pulse_incr s cmds = Some s' \<longrightarrow>
      0 < angle s' \<and> angle s' < range_s s' \<and> range_s s' = range_s s \<and> angle s' \<noteq> 0) \<and>
   (bs \<noteq> [] \<and> LED_run l bs = Some l' \<longrightarrow>
      0 < brightness l' \<and> brightness l' < 100 \<and> brightness l' \<noteq> 0) \<and>
   (cmds \<noteq> [] \<and> ContinousServo_run cs cmds = Some cs' \<longrightarrow> - 1 < speed cs' \<and> speed cs' < 1)"
proof (intro conjI impI)
  show "Servo_set depth pulse_incr s 0 = (Inl InvalidAngle, s)"
    by (simp add: Servo_set_outside)
  show "LED_set l 0 = (Inl InvalidBrightness, l)"
    by (simp add: LED_set_def)
next
  assume "cmds \<noteq> [] \<and> Servo_run depth pulse_incr s cmds = Some s'"
  then have in_s: "0 < angle s' \<and> angle s' < range_s s' \<and> range_s s' = range_s s"
    using Servo_run_inside by blast
  then show "0 < angle s'" "angle s' < range_s s'" "range_s s' = range_s s" "angle s' \<noteq> 0"
    by simp_all
next
  assume "bs \<noteq> [] \<and> LED_run l bs = Some l'"
  then have "0 < brightness l' \<and> brightness l' < 100"
    using LED_run_inside by blast
  then show "0 < brightness l'" "brightness l' < 100" "brightness l' \<noteq> 0"
    by simp_all
next
  assume "cmds \<noteq> [] \<and> ContinousServo_run cs cmds = Some cs'"
  then have "- 1 < speed cs' \<and> speed cs' < 1"
    using ContinousServo_run_inside by blast
  then show "- 1 < speed cs'" "speed cs' < 1"
    by simp_all
qed

theorem C10_accepted_values_inside_interval_witness:
  "Servo_run 1000 (1 / 10)
      \<lparr>abc_controller = PyController, abc_channel = PyChannel (PWM_Servo 0 (Some 20000)),
       abc_name = PyStr ''a'', abc_pin = PyInt 11,
       range_s = 90, reverse_s = False, angle = 0\<rparr>
      [Set 45, Increment (- 15)] =
     Some
      \<lparr>abc_controller = PyController, abc_channel = PyChannel (PWM_Servo 0 (Some 20000)),
       abc_name = PyStr ''a'', abc_pin = PyInt 11,
       range_s = 90, reverse_s = False, angle = 30\<rparr> \<and>
   LED_run \<lparr>led_name = ''b'', led_pin = 7, led_channel = 0, brightness = 0\<rparr> [50, 99] =
     Some \<lparr>led_name = ''b'', led_pin = 7, led_channel = 0, brightness = 99\<rparr> \<and>
   ContinousServo_run
      \<lparr>abc_controller = PyController, abc_channel = PyChannel (PWM_Servo 0 None),
       abc_name = PyStr ''c'', abc_pin = PyInt 12, reverse_c = PyBool False, speed = 0\<rparr>
      [Set (1 / 2), Increment (1 / 4)] =
     Some
      \<lparr>abc_controller = PyController, abc_channel = PyChannel (PWM_Servo 0 None),
       abc_name = PyStr ''c'', abc_pin = PyInt 12, reverse_c = PyBool False,
       speed = 3 / 4\<rparr> \<and>
   (0::rat) < 30 \<and> (30::rat) < 90 \<and> (0::rat) < 99 \<and> (99::rat) < 100 \<and>
   (- 1::rat) < 3 / 4 \<and> (3 / 4::rat) < 1"
  using
    C10_accepted_values_inside_interval
      [where depth = 1000 and pulse_incr = "1 / 10"
        and s = "\<lparr>abc_controller = PyController,
          abc_channel = PyChannel (PWM_Servo 0 (Some 20000)),
          abc_name = PyStr ''a'', abc_pin = PyInt 11,
          range_s = 90, reverse_s = False, angle = 0\<rparr>"
        and cmds = "[Set 45, Increment (- 15)]"
        and s' = "\<lparr>abc_controller = PyController,
          abc_channel = PyChannel (PWM_Servo 0 (Some 20000)),
          abc_name = PyStr ''a'', abc_pin = PyInt 11,
          range_s = 90, reverse_s = False, angle = 30\<rparr>"
        and l = "\<lparr>led_name = ''b'', led_pin = 7, led_channel = 0, brightness = 0\<rparr>"
        and bs = "[50, 99]"
        and l' = "\<lparr>led_name = ''b'', led_pin = 7, led_channel = 0, brightness = 99\<rparr>"]
    C10_accepted_values_inside_interval
      [where cmds = "[Set (1 / 2), Increment (1 / 4)]"
        and cs = "\<lparr>abc_controller = PyController, abc_channel = PyChannel (PWM_Servo 0 None),
          abc_name = PyStr ''c'', abc_pin = PyInt 12, reverse_c = PyBool False, speed = 0\<rparr>"
        and cs' = "\<lparr>abc_controller = PyController,
          abc_channel = PyChannel (PWM_Servo 0 None),
          abc_name = PyStr ''c'', abc_pin = PyInt 12, reverse_c = PyBool False,
          speed = 3 / 4\<rparr>"]
  by (simp add: Servo_set_inside Servo_increment_def ContinousServo_set_def
      ContinousServo_increment_def LED_set_def)

section \<open>Channels\<close>

lemma set_available:
  "set (available st) =
     {x. 0 \<le> x \<and> x \<le> 14 \<and> x \<notin> set (reserved_channels (config st)) \<and>
         \<not> has_key (channel_servos st) x}"
  by (auto simp: available_def)

lemma sorted_available: "sorted (available st)"
  by (simp add: available_def sorted_wrt_filter)

lemma distinct_available: "distinct (available st)"
  by (simp add: available_def)

lemma get_dma_channel_None: "get_dma_channel st = None \<longleftrightarrow> set (available st) = {}"
  by (simp add: get_dma_channel_def split: list.splits)

lemma get_dma_channel_Some:
  "get_dma_channel st = Some c \<longleftrightarrow>
     c \<in> set (available st) \<and> (\<forall>x \<in> set (available st). c \<le> x)"
proof
  assume "get_dma_channel st = Some c"
  then obtain rest where av: "available st = c # rest"
    by (auto simp: get_dma_channel_def split: list.splits)
  with sorted_available [of st] show "c \<in> set (available st) \<and> (\<forall>x \<in> set (available st). c \<le> x)"
    by auto
next
  assume c: "c \<in> set (available st) \<and> (\<forall>x \<in> set (available st). c \<le> x)"
  then obtain h rest where av: "available st = h # rest"
    by (cases "available st") auto
  with sorted_available [of st] have "\<forall>x \<in> set (available st). h \<le> x"
    by auto
  with c av have "h = c"
    by force
  with av show "get_dma_channel st = Some c"
    by (simp add: get_dma_channel_def)
qed

lemma get_dma_channel_warned [simp]:
  "get_dma_channel (st\<lparr>warnings := w\<rparr>) = get_dma_channel st"
  by (simp add: get_dma_channel_def available_def)

lemma new_dma_channel_auto:
  "fst (new_dma_channel st u None) =
     (case get_dma_channel st of None \<Rightarrow> Inl NoDmaChannel | Some c \<Rightarrow> Inr c)"
  by (simp add: new_dma_channel_def Let_def split: option.splits)

lemma new_servo_channel_auto:
  "new_servo_channel st u None =
     (case get_dma_channel st of
        None \<Rightarrow> (Inl NoDmaChannel, snd (new_dma_channel st u None))
      | Some c \<Rightarrow>
          (Inr (PWM_Servo c u),
           (snd (new_dma_channel st u None))\<lparr>channel_servos :=
              AList.update c (PWM_Servo c u) (channel_servos st)\<rparr>))"
  by (simp add: new_servo_channel_def new_dma_channel_def Let_def split: option.splits)

lemma new_dma_channel_keeps [simp]:
  "config (snd (new_dma_channel st u ch)) = config st"
  "channel_servos (snd (new_dma_channel st u ch)) = channel_servos st"
  by (simp_all add: new_dma_channel_def Let_def split: option.splits)

lemma available_cong:
  "config st' = config st \<Longrightarrow> channel_servos st' = channel_servos st \<Longrightarrow>
   available st' = available st"
  by (simp add: available_def)

lemma new_servo_channel_fails:
  "get_dma_channel st = None \<Longrightarrow> new_servo_channel st u None = (r, st') \<Longrightarrow>
   r = Inl NoDmaChannel \<and> available st' = available st"
  by (auto simp: new_servo_channel_auto intro: available_cong)

lemma new_servo_channel_succeeds:
  assumes "get_dma_channel st = Some c" and "new_servo_channel st u None = (r, st')"
  shows "r = Inr (PWM_Servo c u) \<and> set (available st') = set (available st) - {c}"
proof -
  from assms have r: "r = Inr (PWM_Servo c u)"
    and st': "st' = (snd (new_dma_channel st u None))\<lparr>channel_servos :=
              AList.update c (PWM_Servo c u) (channel_servos st)\<rparr>"
    by (simp_all add: new_servo_channel_auto)
  have "set (available st') = set (available st) - {c}"
    unfolding set_available by (auto simp: st' has_key_update)
  with r show ?thesis by simp
qed

lemma allocate_all_counts:
  "card (set (available st)) = n \<Longrightarrow> length us \<le> n \<Longrightarrow> allocate_all st us = (rs, st') \<Longrightarrow>
   (\<exists>scs. rs = map Inr scs \<and> length scs = length us) \<and>
   card (set (available st')) = n - length us"
proof (induction us arbitrary: st n rs)
  case Nil
  then show ?case by simp
next
  case (Cons u us)
  obtain r st1 where step: "new_servo_channel st u None = (r, st1)"
    by (cases "new_servo_channel st u None")
  obtain rs1 st2 where rest: "allocate_all st1 us = (rs1, st2)"
    by (cases "allocate_all st1 us")
  from Cons.prems(3) step rest have rs: "rs = r # rs1" and st2: "st2 = st'"
    by simp_all
  from rest st2 have rest': "allocate_all st1 us = (rs1, st')"
    by simp
  from Cons.prems(1,2) have "set (available st) \<noteq> {}"
    by auto
  then obtain c where c: "get_dma_channel st = Some c"
    using get_dma_channel_None [of st] by (cases "get_dma_channel st") auto
  from new_servo_channel_succeeds [OF c step]
  have r: "r = Inr (PWM_Servo c u)"
    and av: "set (available st1) = set (available st) - {c}"
    by simp_all
  from c have "c \<in> set (available st)"
    by (simp add: get_dma_channel_Some)
  with av Cons.prems(1) have card1: "card (set (available st1)) = n - 1"
    by simp
  from Cons.prems(2) have len: "length us \<le> n - 1"
    by simp
  from Cons.IH [OF card1 len rest']
  obtain scs where scs: "rs1 = map Inr scs" "length scs = length us"
    and card2: "card (set (available st')) = n - 1 - length us"
    by auto
  from rs r scs have "rs = map Inr (PWM_Servo c u # scs) \<and>
      length (PWM_Servo c u # scs) = length (u # us)"
    by simp
  moreover from card2 have "card (set (available st')) = n - length (u # us)"
    by simp
  ultimately show ?case by blast
qed

lemma available_init:
  "set (available (OutputController_init cfg)) = {0..14} - set (reserved_channels cfg)"
  by (auto simp: set_available OutputController_init_def has_key_def)

lemma card_available_init:
  "card (set (available (OutputController_init cfg))) =
     15 - card (set (reserved_channels cfg) \<inter> {0..14})"
proof -
  have "{0..14} - set (reserved_channels cfg) =
      {0..14::int} - (set (reserved_channels cfg) \<inter> {0..14})"
    by auto
  then have "card (set (available (OutputController_init cfg))) =
      card ({0..14::int} - (set (reserved_channels cfg) \<inter> {0..14}))"
    by (simp add: available_init)
  also have "\<dots> = card {0..14::int} - card (set (reserved_channels cfg) \<inter> {0..14})"
    by (rule card_Diff_subset) auto
  finally show ?thesis by simp
qed

lemma no_channel_iff:
  "get_dma_channel st = None \<longleftrightarrow>
     (\<forall>x. 0 \<le> x \<and> x \<le> 14 \<longrightarrow>
        x \<in> set (reserved_channels (config st)) \<or> has_key (channel_servos st) x)"
  unfolding get_dma_channel_None set_available by auto

text \<open>
  What the code does guarantee. \<open>get_dma_channel\<close> returns \<open>c\<close> exactly when \<open>c\<close>
  is an id of \<open>[0, 15)\<close> that is neither reserved nor a key of \<open>channel_servos\<close> and
  every smaller id is reserved or such a key; an allocation without an explicit channel
  returns that id. On a new controller the first allocation returns 0 when nothing is
  reserved and 2 when 0 and 1 are reserved.
\<close>

lemma get_dma_channel_lowest:
  "(get_dma_channel st = Some c \<longleftrightarrow>
      0 \<le> c \<and> c \<le> 14 \<and> c \<notin> set (reserved_channels (config st)) \<and>
      \<not> has_key (channel_servos st) c \<and>
      (\<forall>x. 0 \<le> x \<and> x < c \<longrightarrow>
         x \<in> set (reserved_channels (config st)) \<or> has_key (channel_servos st) x)) \<and>
   fst (new_dma_channel st u None) =
     (case get_dma_channel st of None \<Rightarrow> Inl NoDmaChannel | Some c \<Rightarrow> Inr c) \<and>
   fst (new_dma_channel
         (OutputController_init \<lparr>used_pins = pins, echo = e, reserved_channels = []\<rparr>)
         u None) = Inr 0 \<and>
   fst (new_dma_channel
         (OutputController_init \<lparr>used_pins = pins, echo = e, reserved_channels = [0, 1]\<rparr>)
         u None) = Inr 2 \<and>
   fst (get_servo_channel
         (OutputController_init \<lparr>used_pins = pins, echo = e, reserved_channels = []\<rparr>)
         u) = Inr (PWM_Servo 0 u) \<and>
   fst (get_servo_channel
         (OutputController_init \<lparr>used_pins = pins, echo = e, reserved_channels = [0, 1]\<rparr>)
         u) = Inr (PWM_Servo 2 u)"
proof -
  have lowest: "get_dma_channel st = Some c \<longleftrightarrow>
      0 \<le> c \<and> c \<le> 14 \<and> c \<notin> set (reserved_channels (config st)) \<and>
      \<not> has_key (channel_servos st) c \<and>
      (\<forall>x. 0 \<le> x \<and> x < c \<longrightarrow>
         x \<in> set (reserved_channels (config st)) \<or> has_key (channel_servos st) x)"
    unfolding get_dma_channel_Some set_available by force
  have first0: "get_dma_channel
      (OutputController_init \<lparr>used_pins = pins, echo = e, reserved_channels = []\<rparr>) = Some 0"
    unfolding get_dma_channel_Some set_available
    by (simp add: OutputController_init_def has_key_def)
  have first2: "get_dma_channel
      (OutputController_init \<lparr>used_pins = pins, echo = e, reserved_channels = [0, 1]\<rparr>) =
      Some 2"
    unfolding get_dma_channel_Some set_available
    by (auto simp: OutputController_init_def has_key_def)
  have lookup: "lookup_servo_channel (OutputController_init cfg) u = None" for cfg
    by (simp add: lookup_servo_channel_def OutputController_init_def split: option.splits)
  have fresh: "get_servo_channel (OutputController_init cfg) u =
      new_servo_channel (OutputController_init cfg) u None" for cfg
    by (simp add: get_servo_channel_def lookup)
      (simp add: OutputController_init_def has_key_def split: option.splits)
  show ?thesis
    using lowest
    by (simp add: new_dma_channel_auto first0 first2 fresh new_servo_channel_auto)
qed

text \<open>
  An allocation without an explicit channel fails with the no-channel error exactly when
  every id of \<open>[0, 15)\<close> is reserved or a key of \<open>channel_servos\<close>. On a new controller
  with two of the fifteen ids reserved, thirteen allocations
  \<open>new_servo_channel(update_cycle)\<close> in a row, which register their channel in
  \<open>channel_servos\<close>, all succeed, and every further one fails with that error.
\<close>

lemma servo_channels_exhaust:
  "(fst (new_dma_channel st u None) = Inl NoDmaChannel \<longleftrightarrow>
      (\<forall>x. 0 \<le> x \<and> x \<le> 14 \<longrightarrow>
         x \<in> set (reserved_channels (config st)) \<or> has_key (channel_servos st) x)) \<and>
   (fst (new_servo_channel st u None) = Inl NoDmaChannel \<longleftrightarrow>
      (\<forall>x. 0 \<le> x \<and> x \<le> 14 \<longrightarrow>
         x \<in> set (reserved_channels (config st)) \<or> has_key (channel_servos st) x)) \<and>
   (card (set (reserved_channels cfg) \<inter> {0..14}) = 2 \<and> length us = 13 \<and>
    allocate_all (OutputController_init cfg) us = (rs, st') \<longrightarrow>
      (\<exists>scs. rs = map Inr scs \<and> length scs = 13) \<and>
      fst (new_servo_channel st' u' None) = Inl NoDmaChannel)"
proof (intro conjI impI)
  show "fst (new_dma_channel st u None) = Inl NoDmaChannel \<longleftrightarrow>
      (\<forall>x. 0 \<le> x \<and> x \<le> 14 \<longrightarrow>
         x \<in> set (reserved_channels (config st)) \<or> has_key (channel_servos st) x)"
    unfolding no_channel_iff [symmetric]
    by (simp add: new_dma_channel_auto split: option.splits)
  show "fst (new_servo_channel st u None) = Inl NoDmaChannel \<longleftrightarrow>
      (\<forall>x. 0 \<le> x \<and> x \<le> 14 \<longrightarrow>
         x \<in> set (reserved_channels (config st)) \<or> has_key (channel_servos st) x)"
    unfolding no_channel_iff [symmetric]
    by (simp add: new_servo_channel_auto split: option.splits)
next
  assume a: "card (set (reserved_channels cfg) \<inter> {0..14}) = 2 \<and> length us = 13 \<and>
    allocate_all (OutputController_init cfg) us = (rs, st')"
  then have card: "card (set (available (OutputController_init cfg))) = 13"
    by (simp add: card_available_init)
  from a have len: "length us \<le> 13" and run: "allocate_all (OutputController_init cfg) us = (rs, st')"
    by simp_all
  from allocate_all_counts [OF card len run] a
  have ok: "\<exists>scs. rs = map Inr scs \<and> length scs = 13"
    and none: "card (set (available st')) = 0"
    by simp_all
  from ok show "\<exists>scs. rs = map Inr scs \<and> length scs = 13" .
  from none have "set (available st') = {}"
    by simp
  then have "get_dma_channel st' = None"
    by (simp add: get_dma_channel_None)
  then show "fst (new_servo_channel st' u' None) = Inl NoDmaChannel"
    by (simp add: new_servo_channel_auto)
qed
lemma lookup_bound:
  "lookup_servo_channel st (Some u) = Some sc \<longleftrightarrow>
     (\<exists>c. map_of (update_channels st) (Some u) = Some c \<and> map_of (channel_servos st) c = Some sc)"
  by (auto simp: lookup_servo_channel_def split: option.splits)

lemma get_servo_channel_bound:
  "lookup_servo_channel st u = Some sc \<Longrightarrow> get_servo_channel st u = (Inr sc, st)"
  by (simp add: get_servo_channel_def)

lemma new_servo_channel_binds:
  assumes "new_servo_channel st (Some u) None = (Inr sc, st')"
  shows "lookup_servo_channel st' (Some u) = Some sc"
proof -
  from assms obtain c where c: "get_dma_channel st = Some c"
    by (cases "get_dma_channel st") (auto simp: new_servo_channel_auto)
  with assms have sc: "sc = PWM_Servo c (Some u)"
    and st': "st' = (snd (new_dma_channel st (Some u) None))\<lparr>channel_servos :=
        AList.update c (PWM_Servo c (Some u)) (channel_servos st)\<rparr>"
    by (auto simp: new_servo_channel_auto)
  from c have "update_channels (snd (new_dma_channel st (Some u) None)) =
      AList.update (Some u) c (update_channels st)"
    by (simp add: new_dma_channel_def Let_def)
  then show ?thesis
    unfolding lookup_bound by (simp add: st' sc map_of_update_same)
qed

lemma get_servo_channel_binds:
  assumes "get_servo_channel st (Some u) = (Inr sc, st')"
  shows "lookup_servo_channel st' (Some u) = Some sc"
proof (cases "lookup_servo_channel st (Some u)")
  case (Some sc0)
  with assms show ?thesis
    by (simp add: get_servo_channel_def)
next
  case None
  with assms have "new_servo_channel st (Some u) None = (Inr sc, st')"
    by (simp add: get_servo_channel_def split: if_splits)
  then show ?thesis
    by (rule new_servo_channel_binds)
qed

lemma update_channels_failed_allocation:
  "get_dma_channel st = None \<Longrightarrow>
   update_channels (snd (new_dma_channel st v None)) = update_channels st"
  by (simp add: new_dma_channel_def Let_def)

lemma new_servo_channel_keeps_bound:
  assumes bound: "lookup_servo_channel st (Some u) = Some sc" and other: "v \<noteq> Some u"
  shows "lookup_servo_channel (snd (new_servo_channel st v None)) (Some u) = Some sc"
proof -
  from bound obtain c where uc: "map_of (update_channels st) (Some u) = Some c"
    and cs: "map_of (channel_servos st) c = Some sc"
    unfolding lookup_bound by blast
  show ?thesis
  proof (cases "get_dma_channel st")
    case None
    then show ?thesis
      unfolding lookup_bound
      by (simp add: new_servo_channel_auto update_channels_failed_allocation uc cs)
  next
    case (Some c')
    then have "\<not> has_key (channel_servos st) c'"
      by (simp add: get_dma_channel_Some set_available)
    with cs have diff: "c \<noteq> c'"
      by (auto simp: has_key_map_of)
    from Some have "update_channels (snd (new_dma_channel st v None)) =
        AList.update v c' (update_channels st)"
      by (simp add: new_dma_channel_def Let_def)
    with Some other diff uc cs show ?thesis
      unfolding lookup_bound
      by (simp add: new_servo_channel_auto map_of_update_other)
  qed
qed

lemma get_servo_channel_keeps_bound:
  assumes bound: "lookup_servo_channel st (Some u) = Some sc"
  shows "lookup_servo_channel (snd (get_servo_channel st v)) (Some u) = Some sc"
proof (cases "lookup_servo_channel st v")
  case (Some sc0)
  with bound show ?thesis
    by (simp add: get_servo_channel_def)
next
  case None
  with bound have other: "v \<noteq> Some u"
    by auto
  from None new_servo_channel_keeps_bound [OF bound other] bound show ?thesis
    by (simp add: get_servo_channel_def)
qed

text \<open>
  When an update cycle \<open>u\<close> is a key of \<open>update_channels\<close> and its channel id a key of
  \<open>channel_servos\<close>, as \<open>get_servo_channel\<close> leaves both when it binds a channel, a
  request for \<open>u\<close> returns that channel and leaves the state as it is. So after a request
  for \<open>u\<close> that returned a channel, a second request returns the same channel and changes
  nothing, also when a request for any other update cycle comes in between.
\<close>

lemma registered_cycle_reuses_channel:
  "(map_of (update_channels st) (Some u) = Some c \<and> map_of (channel_servos st) c = Some sc \<longrightarrow>
      get_servo_channel st (Some u) = (Inr sc, st)) \<and>
   (get_servo_channel st (Some u) = (Inr sc, st') \<longrightarrow>
      get_servo_channel st' (Some u) = (Inr sc, st') \<and>
      get_servo_channel (snd (get_servo_channel st' v)) (Some u) =
        (Inr sc, snd (get_servo_channel st' v)))"
proof (intro conjI impI)
  assume "map_of (update_channels st) (Some u) = Some c \<and> map_of (channel_servos st) c = Some sc"
  then have "lookup_servo_channel st (Some u) = Some sc"
    unfolding lookup_bound by blast
  then show "get_servo_channel st (Some u) = (Inr sc, st)"
    by (rule get_servo_channel_bound)
next
  assume "get_servo_channel st (Some u) = (Inr sc, st')"
  then have bound: "lookup_servo_channel st' (Some u) = Some sc"
    by (rule get_servo_channel_binds)
  then show "get_servo_channel st' (Some u) = (Inr sc, st')"
    by (rule get_servo_channel_bound)
  from get_servo_channel_keeps_bound [OF bound]
  show "get_servo_channel (snd (get_servo_channel st' v)) (Some u) =
        (Inr sc, snd (get_servo_channel st' v))"
    by (rule get_servo_channel_bound)
qed

text \<open>
  C1. The claim: no channel id is bound to two update cycles at once; in particular a
  channel allocated for an LED and one allocated for a servo with an update cycle are
  distinct. The code: on a new controller with nothing reserved, \<open>new_led\<close> binds
  channel 0 to the key \<open>None\<close> in \<open>update_channels\<close> only, \<open>get_dma_channel\<close> looks at
  \<open>channel_servos\<close> only, and the \<open>new_servo\<close> that follows binds channel 0 again, to
  the update cycle 20000.
\<close>

theorem C1_led_and_servo_share_channel:
  "update_channels
     (snd (new_led \<lparr>rpio_IN = 1, rpio_OUT = 0\<rparr>
        (OutputController_init \<lparr>used_pins = [], echo = [], reserved_channels = []\<rparr>)
        ''led'' 7)) = [(None, 0)] \<and>
   update_channels
     (snd (new_servo \<lparr>rpio_IN = 1, rpio_OUT = 0\<rparr>
        (snd (new_led \<lparr>rpio_IN = 1, rpio_OUT = 0\<rparr>
           (OutputController_init \<lparr>used_pins = [], echo = [], reserved_channels = []\<rparr>)
           ''led'' 7))
        ''servo'' 11 (Some 20000) 90 [1, 2] False)) = [(None, 0), (Some 20000, 0)] \<and>
   fst (new_dma_channel
        (OutputController_init \<lparr>used_pins = [], echo = [], reserved_channels = []\<rparr>)
        None None) = Inr 0 \<and>
   fst (get_servo_channel
        (snd (new_dma_channel
           (OutputController_init \<lparr>used_pins = [], echo = [], reserved_channels = []\<rparr>)
           None None))
        (Some 20000)) = Inr (PWM_Servo 0 (Some 20000))"
  by code_simp

text \<open>
  C9. The claim: a successful \<open>new_servo(n, ...)\<close>, \<open>new_continuous_servo\<close> or
  \<open>new_led\<close> registers the actuator under \<open>n\<close>. The code: every such call raises before
  it reaches the registry, and leaves \<open>servos\<close> and \<open>leds\<close> as they were, because
  \<open>claim_pin\<close> is handed \<open>RPIO.OUT\<close> where it reads \<open>config.used_pins\<close>.
\<close>

theorem C9_no_actuator_registered:
  "fst (new_servo K st n p u r b rv) \<in>
     {Inl NoDmaChannel, Inl (ChannelInconsistency u), Inl (NoSuchAttribute ''used_pins'')} \<and>
   servos (snd (new_servo K st n p u r b rv)) = servos st \<and>
   fst (new_continuous_servo K st n p b rv) \<in>
     {Inl NoDmaChannel, Inl (NoSuchAttribute ''used_pins'')} \<and>
   servos (snd (new_continuous_servo K st n p b rv)) = servos st \<and>
   fst (new_led K st n p) \<in> {Inl NoDmaChannel, Inl (NoSuchAttribute ''used_pins'')} \<and>
   leds (snd (new_led K st n p)) = leds st"
proof -
  have dma: "servos (snd (new_dma_channel st0 v ch)) = servos st0 \<and>
      leds (snd (new_dma_channel st0 v ch)) = leds st0 \<and>
      (\<forall>e. fst (new_dma_channel st0 v ch) = Inl e \<longrightarrow> e = NoDmaChannel)" for st0 v ch
    by (simp add: new_dma_channel_def Let_def split: option.splits)
  have chan: "servos (snd (new_servo_channel st0 v ch)) = servos st0 \<and>
      (\<forall>e. fst (new_servo_channel st0 v ch) = Inl e \<longrightarrow> e = NoDmaChannel)" for st0 v ch
    using dma [of st0 v ch]
    by (cases "new_dma_channel st0 v ch")
      (auto simp: new_servo_channel_def Let_def split: sum.splits)
  have get: "servos (snd (get_servo_channel st v)) = servos st \<and>
      (\<forall>e. fst (get_servo_channel st v) = Inl e \<longrightarrow>
         e = NoDmaChannel \<or> (e = ChannelInconsistency v \<and> v \<noteq> None))" for v
    using chan [of st v None]
    by (auto simp: get_servo_channel_def split: option.splits)
  have claim: "claim_pin K p (PyInt i) PyConfig cm st0 = (Inl (NoSuchAttribute ''used_pins''), st0)"
    for i cm and st0 :: controller
    by (simp add: claim_pin_def)
  have servo: "fst (new_servo K st n p u r b rv) \<in>
     {Inl NoDmaChannel, Inl (ChannelInconsistency u), Inl (NoSuchAttribute ''used_pins'')} \<and>
     servos (snd (new_servo K st n p u r b rv)) = servos st"
    using get [of u]
    by (cases "get_servo_channel st u") (auto simp: new_servo_def claim split: sum.splits)
  have cont: "fst (new_continuous_servo K st n p b rv) \<in>
     {Inl NoDmaChannel, Inl (NoSuchAttribute ''used_pins'')} \<and>
     servos (snd (new_continuous_servo K st n p b rv)) = servos st"
    using get [of None]
    by (cases "get_servo_channel st None")
      (auto simp: new_continuous_servo_def claim split: sum.splits)
  have led: "fst (new_led K st n p) \<in> {Inl NoDmaChannel, Inl (NoSuchAttribute ''used_pins'')} \<and>
     leds (snd (new_led K st n p)) = leds st"
    using dma [of st None None]
    by (cases "new_dma_channel st None None")
      (auto simp: new_led_def claim split: sum.splits list.splits)
  from servo cont led show ?thesis
    by simp
qed

text \<open>
  C2. The claim: an allocation always picks the lowest id that is neither reserved nor
  already in use. The code: on a new controller with nothing reserved,
  \<open>new_dma_channel(20000)\<close> binds id 0, and the allocation that follows, for the update
  cycle 10000, returns id 0 again, not 1; the same after \<open>new_led\<close>, whose channel 0
  is handed to \<open>get_servo_channel(20000)\<close>. \<open>get_dma_channel\<close> skips the keys of
  \<open>channel_servos\<close>, and a binding written by \<open>new_dma_channel\<close> is not among them.
  (The two first allocations of the claim, 0 and 2, are what the code returns.)
\<close>

theorem C2_bound_channel_allocated_again:
  "new_dma_channel
     (OutputController_init \<lparr>used_pins = [], echo = [], reserved_channels = []\<rparr>)
     (Some 20000) None =
     (Inr 0,
      \<lparr>config = \<lparr>used_pins = [], echo = [], reserved_channels = []\<rparr>,
       setup_calls = [], warnings = [],
       update_channels = [(Some 20000, 0)], channel_servos = [],
       servos = [], actuators = [], leds = []\<rparr>) \<and>
   new_dma_channel
     \<lparr>config = \<lparr>used_pins = [], echo = [], reserved_channels = []\<rparr>,
      setup_calls = [], warnings = [],
      update_channels = [(Some 20000, 0)], channel_servos = [],
      servos = [], actuators = [], leds = []\<rparr>
     (Some 10000) None =
     (Inr 0,
      \<lparr>config = \<lparr>used_pins = [], echo = [], reserved_channels = []\<rparr>,
       setup_calls = [], warnings = [],
       update_channels = [(Some 20000, 0), (Some 10000, 0)], channel_servos = [],
       servos = [], actuators = [], leds = []\<rparr>) \<and>
   get_dma_channel
     (snd (new_led \<lparr>rpio_IN = 1, rpio_OUT = 0\<rparr>
        (OutputController_init \<lparr>used_pins = [], echo = [], reserved_channels = []\<rparr>)
        ''led'' 7)) = Some 0 \<and>
   fst (new_dma_channel
     (OutputController_init \<lparr>used_pins = [], echo = [], reserved_channels = []\<rparr>)
     None None) = Inr 0 \<and>
   fst (new_dma_channel
     (OutputController_init \<lparr>used_pins = [], echo = [], reserved_channels = [0, 1]\<rparr>)
     None None) = Inr 2"
  by code_simp


text \<open>
  C4. The claim: with two of the fifteen ids reserved, thirteen allocations for distinct
  update cycles succeed and the fourteenth fails, and an allocation fails exactly when
  no id is both unreserved and unused. The code: with 0 and 1 reserved, thirteen
  \<open>new_dma_channel(update_cycle)\<close> calls for distinct update cycles all return id 2
  and so does the fourteenth; and with 0 to 13 reserved, \<open>new_led\<close> binds id 14, the
  last one, and \<open>get_servo_channel(20000)\<close> then succeeds with id 14 again.
  \<open>get_dma_channel\<close> counts an id as used only when it is a key of \<open>channel_servos\<close>.
\<close>

theorem C4_no_exhaustion:
  "update_channels
     (fold (\<lambda>u st. snd (new_dma_channel st u None))
        (map Some [20000, 20001, 20002, 20003, 20004, 20005, 20006, 20007, 20008,
           20009, 20010, 20011, 20012])
        (OutputController_init \<lparr>used_pins = [], echo = [], reserved_channels = [0, 1]\<rparr>)) =
     [(Some 20000, 2), (Some 20001, 2), (Some 20002, 2), (Some 20003, 2), (Some 20004, 2),
      (Some 20005, 2), (Some 20006, 2), (Some 20007, 2), (Some 20008, 2), (Some 20009, 2),
      (Some 20010, 2), (Some 20011, 2), (Some 20012, 2)] \<and>
   fst (new_dma_channel
     (fold (\<lambda>u st. snd (new_dma_channel st u None))
        (map Some [20000, 20001, 20002, 20003, 20004, 20005, 20006, 20007, 20008,
           20009, 20010, 20011, 20012])
        (OutputController_init \<lparr>used_pins = [], echo = [], reserved_channels = [0, 1]\<rparr>))
     (Some 20013) None) = Inr 2 \<and>
   update_channels
     (snd (new_led \<lparr>rpio_IN = 1, rpio_OUT = 0\<rparr>
        (OutputController_init \<lparr>used_pins = [], echo = [],
           reserved_channels = [0, 1, 2, 3, 4, 5, 6, 7, 8, 9, 10, 11, 12, 13]\<rparr>)
        ''led'' 7)) = [(None, 14)] \<and>
   fst (get_servo_channel
     (snd (new_led \<lparr>rpio_IN = 1, rpio_OUT = 0\<rparr>
        (OutputController_init \<lparr>used_pins = [], echo = [],
           reserved_channels = [0, 1, 2, 3, 4, 5, 6, 7, 8, 9, 10, 11, 12, 13]\<rparr>)
        ''led'' 7))
     (Some 20000)) = Inr (PWM_Servo 14 (Some 20000))"
  by code_simp

end
